theory Spec2Isabelle
  imports Main "HOL-Library.Word"
begin

section \<open>MIO memory streams (mio.c)\<close>

text \<open>
  The memory variant (\<open>MIO_TYPE_MEMORY\<close>) of the functions of mio.c that work on a
  stream, from \<open>mio_new_memory\<close> on (\<open>mio_free\<close> ends the stream), on an LP64
  platform: \<open>gsize\<close> and \<open>glong\<close> are 64 bits wide, \<open>gint\<close> and \<open>guint\<close> 32 bits,
  \<open>guchar\<close> 8 bits. Unsigned arithmetic wraps as the word operations do; a \<open>glong\<close>
  or \<open>gint\<close> is read as two's complement with \<open>sint\<close>.

  The file variant forwards every call to stdio and is not modelled.
\<close>

type_synonym guchar = "8 word"
type_synonym gint = "32 word"
type_synonym gsize = "64 word"
type_synonym glong = "64 word"

definition EOF :: gint where
  "EOF = - 1"

definition G_MAXSIZE :: gsize where
  "G_MAXSIZE = - 1"

definition MIO_CHUNK_SIZE :: gsize where
  "MIO_CHUNK_SIZE = 4096"

definition SEEK_SET :: gint where "SEEK_SET = 0"
definition SEEK_CUR :: gint where "SEEK_CUR = 1"
definition SEEK_END :: gint where "SEEK_END = 2"

datatype errno_code = EINVAL | EIO | EOVERFLOW

datatype MIOType = MIO_TYPE_FILE | MIO_TYPE_MEMORY

text \<open>
  A block of memory is the list of its bytes, so that the length of the list is the
  number of bytes really allocated. The \<open>NULL\<close> pointer is the empty block.

  \<open>MIOReallocFunc\<close> is the caller's callback: given the old block and the new size it
  returns the new block, or \<open>None\<close> for \<open>NULL\<close>. What the callback does is not part of
  mio.c, so it is a parameter; \<open>realloc_contract\<close> below is the contract of the C
  library's \<open>realloc\<close>.
\<close>

type_synonym MIOReallocFunc = "guchar list \<Rightarrow> gsize \<Rightarrow> guchar list option"

text \<open>
  The fields of \<open>mio->impl.mem\<close>. \<open>errno\<close> is the C library's global, carried with the
  stream so that the functions that assign it can be followed; \<open>None\<close> is a value
  that none of the functions below has assigned.
\<close>

record MIO =
  mem_buf :: "guchar list"
  mem_ungetch :: gint
  mem_pos :: gsize
  mem_size :: gsize
  mem_allocated_size :: gsize
  mem_realloc_func :: "MIOReallocFunc option"
  mem_free_func :: bool
  mem_eof :: bool
  mem_error :: bool
  errno :: "errno_code option"

record MIOPos =
  pos_type :: MIOType
  pos_mem :: gsize

subsection \<open>Memory accesses\<close>

text \<open>
  C leaves an access outside the allocated block undefined. The model makes it a
  result of its own: \<open>None\<close>. \<open>load_bytes src off n\<close> reads \<open>n\<close> bytes at \<open>src + off\<close>,
  \<open>store_bytes dst off bs\<close> writes the bytes \<open>bs\<close> at \<open>dst + off\<close>; \<open>memcpy\<close> is one
  after the other. \<open>load_byte\<close> and \<open>store_byte\<close> are the accesses \<open>src[i]\<close> and
  \<open>dst[i] = v\<close>.
\<close>

definition load_bytes :: "guchar list \<Rightarrow> nat \<Rightarrow> nat \<Rightarrow> guchar list option" where
  "load_bytes src off n =
     (if off + n \<le> length src then Some (take n (drop off src)) else None)"

definition store_bytes :: "guchar list \<Rightarrow> nat \<Rightarrow> guchar list \<Rightarrow> guchar list option" where
  "store_bytes dst off bs =
     (if off + length bs \<le> length dst
      then Some (take off dst @ bs @ drop (off + length bs) dst) else None)"

definition load_byte :: "guchar list \<Rightarrow> nat \<Rightarrow> guchar option" where
  "load_byte src i = (if i < length src then Some (src ! i) else None)"

definition store_byte :: "guchar list \<Rightarrow> nat \<Rightarrow> guchar \<Rightarrow> guchar list option" where
  "store_byte dst i v = (if i < length dst then Some (dst[i := v]) else None)"

definition memcpy :: "guchar list \<Rightarrow> nat \<Rightarrow> guchar list \<Rightarrow> nat \<Rightarrow> nat \<Rightarrow> guchar list option" where
  "memcpy dst doff src soff n =
     (case load_bytes src soff n of
        None \<Rightarrow> None
      | Some bs \<Rightarrow> store_bytes dst doff bs)"

subsection \<open>Construction\<close>

definition mio_new_memory :: "guchar list \<Rightarrow> gsize \<Rightarrow> MIOReallocFunc option \<Rightarrow> bool \<Rightarrow> MIO" where
  "mio_new_memory data sz realloc_func free_func =
     \<lparr> mem_buf = data,
       mem_ungetch = EOF,
       mem_pos = 0,
       mem_size = sz,
       mem_allocated_size = sz,
       mem_realloc_func = realloc_func,
       mem_free_func = free_func,
       mem_eof = False,
       mem_error = False,
       errno = None \<rparr>"

subsection \<open>mio_read\<close>

text \<open>
  The \<open>for\<close> loop of \<open>mio_read\<close>: \<open>n_read\<close> counts up to \<open>nmemb\<close>, and the loop leaves
  at the first record that does not fit before \<open>mem_size\<close>.
\<close>

function read_loop :: "MIO \<Rightarrow> guchar list \<Rightarrow> gsize \<Rightarrow> gsize \<Rightarrow> gsize
    \<Rightarrow> (gsize \<times> guchar list \<times> MIO) option" where
  "read_loop m ptr sz nmemb n_read =
     (if n_read < nmemb then
        (if mem_pos m + sz > mem_size m then Some (n_read, ptr, m)
         else
           (case memcpy ptr (unat (n_read * sz)) (mem_buf m) (unat (mem_pos m)) (unat sz) of
              None \<Rightarrow> None
            | Some ptr' \<Rightarrow>
                read_loop (m\<lparr>mem_pos := mem_pos m + sz\<rparr>) ptr' sz nmemb (n_read + 1)))
      else Some (n_read, ptr, m))"
  by pat_completeness auto
termination
proof (relation "measure (\<lambda>(m, ptr, sz, nmemb, n_read). unat nmemb - unat n_read)")
  show "wf (measure (\<lambda>(m, ptr, sz, nmemb, n_read). unat nmemb - unat n_read))"
    by simp
next
  fix m :: MIO and ptr ptr' :: "guchar list" and sz nmemb n_read :: gsize
  assume lt: "n_read < nmemb"
  then have less: "unat n_read < unat nmemb"
    by (simp add: word_less_nat_alt)
  moreover have "unat nmemb < 2 ^ LENGTH(64)"
    by (rule unsigned_less)
  ultimately have "unat n_read + 1 < 2 ^ LENGTH(64)"
    by linarith
  then have "unat (n_read + 1) = unat n_read + 1"
    by (simp add: unat_word_ariths)
  with less show "((m\<lparr>mem_pos := mem_pos m + sz\<rparr>, ptr', sz, nmemb, n_read + 1),
      (m, ptr, sz, nmemb, n_read))
    \<in> measure (\<lambda>(m, ptr, sz, nmemb, n_read). unat nmemb - unat n_read)"
    by simp
qed

text \<open>The block of \<open>mio_read\<close> that serves a pending push-back byte first.\<close>

definition read_ungetch :: "MIO \<Rightarrow> guchar list \<Rightarrow> gsize
    \<Rightarrow> (gsize \<times> guchar list \<times> MIO) option" where
  "read_ungetch m ptr sz =
     (if mem_ungetch m \<noteq> EOF then
        (case store_byte ptr 0 (ucast (mem_ungetch m)) of
           None \<Rightarrow> None
         | Some p1 \<Rightarrow>
             (let m1 = m\<lparr>mem_ungetch := EOF, mem_pos := mem_pos m + 1\<rparr> in
              if sz = 1 then Some (1, p1, m1)
              else if mem_pos m1 + (sz - 1) \<le> mem_size m1 then
                (case memcpy p1 1 (mem_buf m1) (unat (mem_pos m1)) (unat (sz - 1)) of
                   None \<Rightarrow> None
                 | Some p2 \<Rightarrow> Some (1, p2, m1\<lparr>mem_pos := mem_pos m1 + (sz - 1)\<rparr>))
              else Some (0, p1, m1)))
      else Some (0, ptr, m))"

definition mio_read :: "MIO \<Rightarrow> guchar list \<Rightarrow> gsize \<Rightarrow> gsize
    \<Rightarrow> (gsize \<times> guchar list \<times> MIO) option" where
  "mio_read m ptr sz nmemb =
     (if sz \<noteq> 0 \<and> nmemb \<noteq> 0 then
        (case read_ungetch m ptr sz of
           None \<Rightarrow> None
         | Some (n0, p0, m0) \<Rightarrow>
             (case read_loop m0 p0 sz nmemb n0 of
                None \<Rightarrow> None
              | Some (n_read, p, m1) \<Rightarrow>
                  Some (n_read, p,
                        if mem_pos m1 \<ge> mem_size m1 then m1\<lparr>mem_eof := True\<rparr> else m1)))
      else Some (0, ptr, m))"

subsection \<open>Growth\<close>

definition try_resize :: "MIO \<Rightarrow> gsize \<Rightarrow> bool \<times> MIO" where
  "try_resize m new_size =
     (case mem_realloc_func m of
        None \<Rightarrow> (False, m)
      | Some realloc_func \<Rightarrow>
          if new_size = G_MAXSIZE then (False, m\<lparr>errno := Some EOVERFLOW\<rparr>)
          else if new_size > mem_size m then
            (if new_size \<le> mem_allocated_size m then (True, m\<lparr>mem_size := new_size\<rparr>)
             else
               (let newsize = max (mem_allocated_size m + MIO_CHUNK_SIZE) new_size in
                case realloc_func (mem_buf m) newsize of
                  None \<Rightarrow> (False, m)
                | Some newbuf \<Rightarrow>
                    (True, m\<lparr>mem_buf := newbuf,
                             mem_allocated_size := newsize,
                             mem_size := new_size\<rparr>)))
          else
            (case realloc_func (mem_buf m) new_size of
               None \<Rightarrow>
                 if new_size = 0
                 then (True, m\<lparr>mem_buf := [],
                               mem_allocated_size := new_size,
                               mem_size := new_size\<rparr>)
                 else (False, m)
             | Some newbuf \<Rightarrow>
                 (True, m\<lparr>mem_buf := newbuf,
                          mem_allocated_size := new_size,
                          mem_size := new_size\<rparr>)))"

definition try_ensure_space :: "MIO \<Rightarrow> gsize \<Rightarrow> bool \<times> MIO" where
  "try_ensure_space m n =
     (if mem_pos m + n > mem_size m then try_resize m (mem_pos m + n) else (True, m))"

subsection \<open>mio_write, mio_putc, mio_puts\<close>

definition mio_write :: "MIO \<Rightarrow> guchar list \<Rightarrow> gsize \<Rightarrow> gsize \<Rightarrow> (gsize \<times> MIO) option" where
  "mio_write m ptr sz nmemb =
     (if sz \<noteq> 0 \<and> nmemb \<noteq> 0 then
        (case try_ensure_space m (sz * nmemb) of
           (True, m1) \<Rightarrow>
             (case memcpy (mem_buf m1) (unat (mem_pos m1)) ptr 0 (unat (sz * nmemb)) of
                None \<Rightarrow> None
              | Some b \<Rightarrow>
                  Some (nmemb, m1\<lparr>mem_buf := b, mem_pos := mem_pos m1 + sz * nmemb\<rparr>))
         | (False, m1) \<Rightarrow> Some (0, m1))
      else Some (0, m))"

definition mio_putc :: "MIO \<Rightarrow> gint \<Rightarrow> (gint \<times> MIO) option" where
  "mio_putc m c =
     (case try_ensure_space m 1 of
        (True, m1) \<Rightarrow>
          (case store_byte (mem_buf m1) (unat (mem_pos m1)) (ucast c) of
             None \<Rightarrow> None
           | Some b \<Rightarrow>
               Some (ucast (ucast c :: guchar), m1\<lparr>mem_buf := b, mem_pos := mem_pos m1 + 1\<rparr>))
      | (False, m1) \<Rightarrow> Some (EOF, m1))"

text \<open>The string \<open>s\<close> is given without its terminator, so \<open>strlen\<close> is its length.\<close>

definition mio_puts :: "MIO \<Rightarrow> guchar list \<Rightarrow> (gint \<times> MIO) option" where
  "mio_puts m s =
     (let len = (word_of_nat (length s) :: gsize) in
      case try_ensure_space m len of
        (True, m1) \<Rightarrow>
          (case memcpy (mem_buf m1) (unat (mem_pos m1)) s 0 (unat len) of
             None \<Rightarrow> None
           | Some b \<Rightarrow> Some (1, m1\<lparr>mem_buf := b, mem_pos := mem_pos m1 + len\<rparr>))
      | (False, m1) \<Rightarrow> Some (EOF, m1))"

subsection \<open>mio_vprintf\<close>

text \<open>
  The C library's \<open>vsnprintf\<close>, applied to the call's format and arguments, is a
  parameter: given the size of the destination it returns the bytes it stores there
  (terminator included) and its return value. The first call is the dry run into the
  one-byte local \<open>tmp\<close>; the second formats into the buffer at the cursor.
\<close>

definition mio_vprintf :: "MIO \<Rightarrow> (nat \<Rightarrow> guchar list \<times> gint) \<Rightarrow> (gint \<times> MIO) option" where
  "mio_vprintf m vsnprintf =
     (let old_pos = mem_pos m;
          old_size = mem_size m;
          n = snd (vsnprintf 1)
      in
      if 0 \<le> sint n then
        (case try_ensure_space m (ucast (n + 1)) of
           (True, m1) \<Rightarrow>
             (case load_byte (mem_buf m1) (unat (mem_pos m1 + ucast n)) of
                None \<Rightarrow> None
              | Some c \<Rightarrow>
                  (case vsnprintf (unat (n + 1)) of
                     (out, rv) \<Rightarrow>
                       (case store_bytes (mem_buf m1) (unat (mem_pos m1)) out of
                          None \<Rightarrow> None
                        | Some b1 \<Rightarrow>
                            (case store_byte b1 (unat (mem_pos m1 + ucast n)) c of
                               None \<Rightarrow> None
                             | Some b2 \<Rightarrow>
                                 if 0 \<le> sint rv \<and> rv = n
                                 then Some (rv, m1\<lparr>mem_buf := b2,
                                                   mem_size := max old_size (old_pos + ucast rv),
                                                   mem_pos := mem_pos m1 + ucast rv\<rparr>)
                                 else Some (- 1, m1\<lparr>mem_buf := b2, mem_size := old_size\<rparr>)))))
         | (False, m1) \<Rightarrow> Some (- 1, m1))
      else Some (- 1, m))"

definition mio_printf :: "MIO \<Rightarrow> (nat \<Rightarrow> guchar list \<times> gint) \<Rightarrow> (gint \<times> MIO) option" where
  "mio_printf m vsnprintf = mio_vprintf m vsnprintf"

subsection \<open>Character input\<close>

definition mio_getc :: "MIO \<Rightarrow> (gint \<times> MIO) option" where
  "mio_getc m =
     (if mem_ungetch m \<noteq> EOF then
        Some (mem_ungetch m, m\<lparr>mem_ungetch := EOF, mem_pos := mem_pos m + 1\<rparr>)
      else if mem_pos m < mem_size m then
        (case load_byte (mem_buf m) (unat (mem_pos m)) of
           None \<Rightarrow> None
         | Some b \<Rightarrow> Some (ucast b, m\<lparr>mem_pos := mem_pos m + 1\<rparr>))
      else Some (EOF, m\<lparr>mem_eof := True\<rparr>))"

definition mio_ungetc :: "MIO \<Rightarrow> gint \<Rightarrow> gint \<times> MIO" where
  "mio_ungetc m ch =
     (if ch \<noteq> EOF \<and> mem_ungetch m = EOF then
        (ch, m\<lparr>mem_ungetch := ch, mem_pos := mem_pos m - 1, mem_eof := False\<rparr>)
      else (EOF, m))"

text \<open>
  The \<open>for\<close> loop of \<open>mio_gets\<close>. It returns the index \<open>i\<close> it stopped at with the
  caller's buffer and the stream.
\<close>

function gets_loop :: "MIO \<Rightarrow> guchar list \<Rightarrow> gsize \<Rightarrow> gsize
    \<Rightarrow> (gsize \<times> guchar list \<times> MIO) option" where
  "gets_loop m s sz i =
     (if mem_pos m < mem_size m \<and> i < sz - 1 then
        (case load_byte (mem_buf m) (unat (mem_pos m)) of
           None \<Rightarrow> None
         | Some b \<Rightarrow>
             (case store_byte s (unat i) b of
                None \<Rightarrow> None
              | Some s' \<Rightarrow>
                  if b = 10 then Some (i + 1, s', m\<lparr>mem_pos := mem_pos m + 1\<rparr>)
                  else gets_loop (m\<lparr>mem_pos := mem_pos m + 1\<rparr>) s' sz (i + 1)))
      else Some (i, s, m))"
  by pat_completeness auto
termination
proof (relation "measure (\<lambda>(m, s, sz, i). unat (mem_size m) - unat (mem_pos m))")
  show "wf (measure (\<lambda>(m, s, sz, i). unat (mem_size m) - unat (mem_pos m)))"
    by simp
next
  fix m :: MIO and s s' :: "guchar list" and sz i :: gsize
  assume "mem_pos m < mem_size m \<and> i < sz - 1"
  then have less: "unat (mem_pos m) < unat (mem_size m)"
    by (simp add: word_less_nat_alt)
  moreover have "unat (mem_size m) < 2 ^ LENGTH(64)"
    by (rule unsigned_less)
  ultimately have "unat (mem_pos m) + 1 < 2 ^ LENGTH(64)"
    by linarith
  then have "unat (mem_pos m + 1) = unat (mem_pos m) + 1"
    by (simp add: unat_word_ariths)
  with less show "((m\<lparr>mem_pos := mem_pos m + 1\<rparr>, s', sz, i + 1), (m, s, sz, i))
    \<in> measure (\<lambda>(m, s, sz, i). unat (mem_size m) - unat (mem_pos m))"
    by simp
qed

text \<open>
  \<open>mio_gets\<close> returns \<open>s\<close> or \<open>NULL\<close>: the first component of the result is \<open>True\<close>
  for \<open>s\<close>. The second is the caller's buffer after the call.
\<close>

definition mio_gets :: "MIO \<Rightarrow> guchar list \<Rightarrow> gsize \<Rightarrow> (bool \<times> guchar list \<times> MIO) option" where
  "mio_gets m s sz =
     (if sz > 0 then
        (case (if mem_ungetch m \<noteq> EOF then
                 (case store_byte s 0 (ucast (mem_ungetch m)) of
                    None \<Rightarrow> None
                  | Some s0 \<Rightarrow>
                      Some (1, s0, m\<lparr>mem_ungetch := EOF, mem_pos := mem_pos m + 1\<rparr>))
               else Some (0, s, m)) of
           None \<Rightarrow> None
         | Some (i0, s0, m0) \<Rightarrow>
             (case gets_loop m0 s0 sz i0 of
                None \<Rightarrow> None
              | Some (i, s1, m1) \<Rightarrow>
                  (case (if i > 0 then
                           (case store_byte s1 (unat i) 0 of
                              None \<Rightarrow> None
                            | Some s2 \<Rightarrow> Some (True, s2))
                         else Some (False, s1)) of
                     None \<Rightarrow> None
                   | Some (rv, s2) \<Rightarrow>
                       Some (rv, s2,
                             if mem_pos m1 \<ge> mem_size m1 then m1\<lparr>mem_eof := True\<rparr> else m1))))
      else Some (False, s, m))"

subsection \<open>Flags\<close>

definition mio_clearerr :: "MIO \<Rightarrow> MIO" where
  "mio_clearerr m = m\<lparr>mem_error := False, mem_eof := False\<rparr>"

definition mio_eof :: "MIO \<Rightarrow> gint" where
  "mio_eof m = (if mem_eof m \<noteq> False then 1 else 0)"

definition mio_error :: "MIO \<Rightarrow> gint" where
  "mio_error m = (if mem_error m \<noteq> False then 1 else 0)"

subsection \<open>Positioning\<close>

text \<open>
  \<open>(gsize)offset\<close> and \<open>(gsize)-offset\<close> keep the bits of the \<open>glong\<close>, and
  \<open>mem_pos + offset\<close> is computed in \<open>gsize\<close>.
\<close>

definition mio_seek :: "MIO \<Rightarrow> glong \<Rightarrow> gint \<Rightarrow> gint \<times> MIO" where
  "mio_seek m offset whence =
     (case
        (if whence = SEEK_SET then
           (if sint offset < 0 \<or> offset > mem_size m
            then (- 1, m\<lparr>errno := Some EINVAL\<rparr>)
            else (0, m\<lparr>mem_pos := offset\<rparr>))
         else if whence = SEEK_CUR then
           (if (sint offset < 0 \<and> - offset > mem_pos m) \<or> mem_pos m + offset > mem_size m
            then (- 1, m\<lparr>errno := Some EINVAL\<rparr>)
            else (0, m\<lparr>mem_pos := mem_pos m + offset\<rparr>))
         else if whence = SEEK_END then
           (if sint offset > 0 \<or> - offset > mem_size m
            then (- 1, m\<lparr>errno := Some EINVAL\<rparr>)
            else (0, m\<lparr>mem_pos := mem_size m - (- offset)\<rparr>))
         else (- 1, m\<lparr>errno := Some EINVAL\<rparr>)) of
        (rv, m1) \<Rightarrow>
          if rv = (0 :: gint) then (rv, m1\<lparr>mem_eof := False, mem_ungetch := EOF\<rparr>)
          else (rv, m1))"

definition mio_tell :: "MIO \<Rightarrow> glong" where
  "mio_tell m = mem_pos m"

definition mio_rewind :: "MIO \<Rightarrow> MIO" where
  "mio_rewind m = m\<lparr>mem_pos := 0, mem_ungetch := EOF, mem_eof := False, mem_error := False\<rparr>"

text \<open>Without \<open>MIO_DEBUG\<close>, a snapshot has no tag.\<close>

definition mio_getpos :: "MIO \<Rightarrow> MIOPos \<Rightarrow> gint \<times> MIOPos \<times> MIO" where
  "mio_getpos m pos =
     (let pos1 = pos\<lparr>pos_type := MIO_TYPE_MEMORY\<rparr> in
      if mem_pos m = - 1 then (- 1, pos1, m\<lparr>errno := Some EIO\<rparr>)
      else (0, pos1\<lparr>pos_mem := mem_pos m\<rparr>, m))"

definition mio_setpos :: "MIO \<Rightarrow> MIOPos \<Rightarrow> gint \<times> MIO" where
  "mio_setpos m pos =
     (if pos_mem pos > mem_size m then (- 1, m\<lparr>errno := Some EINVAL\<rparr>)
      else (0, m\<lparr>mem_ungetch := EOF, mem_pos := pos_mem pos\<rparr>))"

subsection \<open>Sequences of calls\<close>

text \<open>
  One constructor for each function of mio.c that takes an existing memory stream,
  with the arguments of the call. \<open>apply_op\<close> makes the call and keeps the stream
  (and \<open>errno\<close>) it leaves; \<open>run_ops\<close> makes the calls of a list in order. The result
  is \<open>None\<close> from the first call on that accesses memory outside a block.
\<close>

datatype mio_op =
    Op_read "guchar list" gsize gsize
  | Op_write "guchar list" gsize gsize
  | Op_putc gint
  | Op_puts "guchar list"
  | Op_vprintf "nat \<Rightarrow> guchar list \<times> gint"
  | Op_getc
  | Op_ungetc gint
  | Op_gets "guchar list" gsize
  | Op_clearerr
  | Op_eof
  | Op_error
  | Op_seek glong gint
  | Op_tell
  | Op_rewind
  | Op_getpos MIOPos
  | Op_setpos MIOPos

fun apply_op :: "mio_op \<Rightarrow> MIO \<Rightarrow> MIO option" where
  "apply_op (Op_read ptr sz nmemb) m = map_option (\<lambda>(n, p, m'). m') (mio_read m ptr sz nmemb)"
| "apply_op (Op_write ptr sz nmemb) m = map_option snd (mio_write m ptr sz nmemb)"
| "apply_op (Op_putc c) m = map_option snd (mio_putc m c)"
| "apply_op (Op_puts s) m = map_option snd (mio_puts m s)"
| "apply_op (Op_vprintf f) m = map_option snd (mio_vprintf m f)"
| "apply_op Op_getc m = map_option snd (mio_getc m)"
| "apply_op (Op_ungetc ch) m = Some (snd (mio_ungetc m ch))"
| "apply_op (Op_gets s sz) m = map_option (\<lambda>(rv, s', m'). m') (mio_gets m s sz)"
| "apply_op Op_clearerr m = Some (mio_clearerr m)"
| "apply_op Op_eof m = Some m"
| "apply_op Op_error m = Some m"
| "apply_op (Op_seek offset whence) m = Some (snd (mio_seek m offset whence))"
| "apply_op Op_tell m = Some m"
| "apply_op Op_rewind m = Some (mio_rewind m)"
| "apply_op (Op_getpos pos) m = Some (snd (snd (mio_getpos m pos)))"
| "apply_op (Op_setpos pos) m = Some (snd (mio_setpos m pos))"

fun run_ops :: "mio_op list \<Rightarrow> MIO \<Rightarrow> MIO option" where
  "run_ops [] m = Some m"
| "run_ops (x # xs) m = (case apply_op x m of None \<Rightarrow> None | Some m' \<Rightarrow> run_ops xs m')"

declare read_loop.simps [simp del] gets_loop.simps [simp del]

lemmas mio_defs = mio_new_memory_def mio_read_def read_ungetch_def mio_write_def mio_putc_def
  mio_puts_def mio_vprintf_def mio_getc_def mio_ungetc_def mio_gets_def mio_clearerr_def
  mio_eof_def mio_error_def mio_seek_def mio_tell_def mio_rewind_def mio_getpos_def
  mio_setpos_def try_ensure_space_def try_resize_def load_byte_def store_byte_def
  load_bytes_def store_bytes_def memcpy_def EOF_def G_MAXSIZE_def MIO_CHUNK_SIZE_def
  SEEK_SET_def SEEK_CUR_def SEEK_END_def Let_def

subsection \<open>The allocator's contract and the stream's invariant\<close>

text \<open>
  The contract of the C library's \<open>realloc\<close>: a block it returns has the size asked
  for, and its contents are those of the old block up to the smaller of the two
  sizes. On failure the old block is untouched, which the model has by construction.
\<close>

definition realloc_contract :: "MIOReallocFunc \<Rightarrow> bool" where
  "realloc_contract f \<longleftrightarrow>
     (\<forall>b n b'. f b n = Some b' \<longrightarrow>
        length b' = unat n
        \<and> take (min (length b) (unat n)) b' = take (min (length b) (unat n)) b)"

text \<open>
  What the fields of a stream promise each other: the block has \<open>mem_allocated_size\<close>
  bytes, the valid data fits in it, and the callback, if any, keeps the contract.
\<close>

definition stream_inv :: "MIO \<Rightarrow> bool" where
  "stream_inv m \<longleftrightarrow>
     length (mem_buf m) = unat (mem_allocated_size m)
     \<and> mem_size m \<le> mem_allocated_size m
     \<and> (case mem_realloc_func m of None \<Rightarrow> True | Some f \<Rightarrow> realloc_contract f)"

text \<open>An allocator that never fails and fills the new bytes with zeros.\<close>

definition realloc_zero_fill :: MIOReallocFunc where
  "realloc_zero_fill b n = Some (take (unat n) b @ replicate (unat n - length b) 0)"

subsection \<open>Scenarios\<close>




text \<open>
  A \<open>vsnprintf\<close> whose two runs disagree: the dry run announces 3 characters, the run
  into the buffer stores two characters and the terminator and returns 2.
\<close>

definition vsnprintf_short :: "nat \<Rightarrow> guchar list \<times> gint" where
  "vsnprintf_short k = (if k = 1 then ([0], 3) else ([88, 89, 0], 2))"

section \<open>Properties\<close>

subsection \<open>Seeking\<close>

lemma sint_nonneg_uint:
  fixes x :: "'a::len word"
  assumes "0 \<le> sint x"
  shows "sint x = uint x"
proof -
  have "sint x < 2 ^ (LENGTH('a) - 1)"
    by (rule sint_lt)
  also have "(2::int) ^ (LENGTH('a) - 1) \<le> 2 ^ LENGTH('a)"
    by (rule power_increasing) simp_all
  finally have "take_bit LENGTH('a) (sint x) = sint x"
    using assms by (simp add: take_bit_int_eq_self)
  then show ?thesis
    by (simp add: uint_sint)
qed

lemma seek_set_succeeds_iff:
  "fst (mio_seek m offset SEEK_SET) = 0
     \<longleftrightarrow> 0 \<le> sint offset \<and> sint offset \<le> uint (mem_size m)"
proof (cases "0 \<le> sint offset")
  case True
  then have "sint offset = uint offset"
    by (rule sint_nonneg_uint)
  with True show ?thesis
    by (simp add: mio_seek_def word_le_def not_less word_less_def)
next
  case False
  then show ?thesis
    by (simp add: mio_seek_def)
qed

lemma seek_set_position:
  "fst (mio_seek m offset SEEK_SET) = 0
     \<Longrightarrow> mem_pos (snd (mio_seek m offset SEEK_SET)) = offset"
  by (auto simp: mio_seek_def split: if_splits)

lemma seek_success_flags:
  "fst (mio_seek m offset whence) = 0
     \<Longrightarrow> \<not> mem_eof (snd (mio_seek m offset whence))
         \<and> mem_ungetch (snd (mio_seek m offset whence)) = EOF"
  by (auto simp: mio_seek_def split: if_splits)

lemma seek_failure:
  "fst (mio_seek m offset whence) \<noteq> 0
     \<Longrightarrow> mio_seek m offset whence = (- 1, m\<lparr>errno := Some EINVAL\<rparr>)"
  by (auto simp: mio_seek_def split: if_splits)

text \<open>
  C5. \<open>mio_seek\<close> from the start (\<open>SEEK_SET\<close>) succeeds exactly when the offset, read
  as a signed \<open>glong\<close>, lies between 0 and \<open>mem_size\<close>, and then the position is the
  offset. Whatever \<open>whence\<close> is, a seek that succeeds leaves the EOF flag cleared and
  no push-back byte pending, and a seek that fails returns -1 and changes nothing
  of the stream: the only assignment is \<open>errno = EINVAL\<close>.
\<close>

theorem mio_seek_contract:
  "(fst (mio_seek m offset SEEK_SET) = 0
      \<longleftrightarrow> 0 \<le> sint offset \<and> sint offset \<le> uint (mem_size m))
   \<and> (fst (mio_seek m offset SEEK_SET) = 0
      \<longrightarrow> mem_pos (snd (mio_seek m offset SEEK_SET)) = offset)
   \<and> (fst (mio_seek m offset whence) = 0
      \<longrightarrow> \<not> mem_eof (snd (mio_seek m offset whence))
        \<and> mem_ungetch (snd (mio_seek m offset whence)) = EOF)
   \<and> (fst (mio_seek m offset whence) \<noteq> 0
      \<longrightarrow> mio_seek m offset whence = (- 1, m\<lparr>errno := Some EINVAL\<rparr>))"
  using seek_set_succeeds_iff [of m offset] seek_set_position [of m offset]
    seek_success_flags [of m offset whence] seek_failure [of m offset whence]
  by blast

text \<open>
  A two-byte stream at end of data with a push-back byte pending: seeking to offset 1
  succeeds, seeking 3 bytes forward fails.
\<close>

theorem mio_seek_contract_witness:
  "fst (mio_seek ((mio_new_memory [104, 105] 2 None False)\<lparr>mem_eof := True, mem_ungetch := 104\<rparr>)
          1 SEEK_SET) = 0
   \<and> mem_pos (snd (mio_seek
          ((mio_new_memory [104, 105] 2 None False)\<lparr>mem_eof := True, mem_ungetch := 104\<rparr>)
          1 SEEK_SET)) = 1
   \<and> \<not> mem_eof (snd (mio_seek
          ((mio_new_memory [104, 105] 2 None False)\<lparr>mem_eof := True, mem_ungetch := 104\<rparr>)
          1 SEEK_SET))
   \<and> mem_ungetch (snd (mio_seek
          ((mio_new_memory [104, 105] 2 None False)\<lparr>mem_eof := True, mem_ungetch := 104\<rparr>)
          1 SEEK_SET)) = EOF
   \<and> fst (mio_seek (mio_new_memory [104, 105] 2 None False) 3 SEEK_CUR) \<noteq> 0
   \<and> mio_seek (mio_new_memory [104, 105] 2 None False) 3 SEEK_CUR
       = (- 1, (mio_new_memory [104, 105] 2 None False)\<lparr>errno := Some EINVAL\<rparr>)"
  using mio_seek_contract
      [of "(mio_new_memory [104, 105] 2 None False)\<lparr>mem_eof := True, mem_ungetch := 104\<rparr>"
          1 SEEK_SET]
    mio_seek_contract [of "mio_new_memory [104, 105] 2 None False" 3 SEEK_CUR]
  by (simp add: mio_new_memory_def mio_seek_def SEEK_SET_def SEEK_CUR_def SEEK_END_def)

subsection \<open>Push-back\<close>

text \<open>
  C6. On a stream with no push-back byte pending, \<open>mio_ungetc\<close> of a value other than
  \<open>EOF\<close> followed at once by \<open>mio_getc\<close> gives that value back, and the position after
  the two calls is the position before them (the stream differs only by its EOF flag,
  which \<open>mio_ungetc\<close> clears). A second \<open>mio_ungetc\<close> with no read in between returns
  \<open>EOF\<close> and leaves the stream as it was.
\<close>

theorem ungetc_getc_roundtrip:
  assumes "ch \<noteq> EOF" and "mem_ungetch m = EOF"
  shows "fst (mio_ungetc m ch) = ch
    \<and> mio_getc (snd (mio_ungetc m ch)) = Some (ch, m\<lparr>mem_eof := False\<rparr>)
    \<and> mem_pos (m\<lparr>mem_eof := False\<rparr>) = mem_pos m
    \<and> mio_ungetc (snd (mio_ungetc m ch)) ch' = (EOF, snd (mio_ungetc m ch))"
  using assms by (simp add: mio_ungetc_def mio_getc_def)

theorem ungetc_getc_roundtrip_witness:
  "(120 :: gint) \<noteq> EOF
   \<and> mem_ungetch (mio_new_memory [104, 105] 2 None False) = EOF
   \<and> mio_getc (snd (mio_ungetc (mio_new_memory [104, 105] 2 None False) 120))
       = Some (120, mio_new_memory [104, 105] 2 None False)
   \<and> mio_ungetc (snd (mio_ungetc (mio_new_memory [104, 105] 2 None False) 120)) 121
       = (EOF, snd (mio_ungetc (mio_new_memory [104, 105] 2 None False) 120))"
  using ungetc_getc_roundtrip [of 120 "mio_new_memory [104, 105] 2 None False" 121]
  by (simp add: mio_new_memory_def EOF_def)

subsection \<open>Position snapshots\<close>

text \<open>
  C9. \<open>mio_getpos\<close> succeeds and stores the cursor in the snapshot except exactly when
  the cursor is \<open>(gsize)-1\<close>, the value \<open>mio_ungetc\<close> leaves at position 0.
  \<open>mio_setpos\<close> succeeds exactly when the snapshot's value is at most \<open>mem_size\<close>, and
  then sets the cursor to it and drops a pending push-back byte. A call that fails
  leaves every field of the stream as it was: it assigns \<open>errno\<close> only (and
  \<open>mio_getpos\<close> the snapshot's type tag).
\<close>

theorem getpos_setpos_contract:
  "(fst (mio_getpos m p) = 0 \<longleftrightarrow> mem_pos m \<noteq> - 1)
   \<and> (mem_pos m \<noteq> - 1
      \<longrightarrow> mio_getpos m p = (0, p\<lparr>pos_type := MIO_TYPE_MEMORY, pos_mem := mem_pos m\<rparr>, m))
   \<and> (mem_pos m = - 1
      \<longrightarrow> mio_getpos m p = (- 1, p\<lparr>pos_type := MIO_TYPE_MEMORY\<rparr>, m\<lparr>errno := Some EIO\<rparr>))
   \<and> (ch \<noteq> EOF \<and> mem_ungetch m = EOF \<and> mem_pos m = 0
      \<longrightarrow> mem_pos (snd (mio_ungetc m ch)) = - 1)
   \<and> (fst (mio_setpos m p) = 0 \<longleftrightarrow> pos_mem p \<le> mem_size m)
   \<and> (pos_mem p \<le> mem_size m
      \<longrightarrow> mio_setpos m p = (0, m\<lparr>mem_ungetch := EOF, mem_pos := pos_mem p\<rparr>))
   \<and> (\<not> pos_mem p \<le> mem_size m
      \<longrightarrow> mio_setpos m p = (- 1, m\<lparr>errno := Some EINVAL\<rparr>))"
  by (auto simp: mio_getpos_def mio_setpos_def mio_ungetc_def Let_def)

text \<open>
  A two-byte stream: a snapshot at position 0 is taken and restored; after
  \<open>mio_ungetc\<close> at position 0 no snapshot can be taken; a snapshot of position 3 is
  refused.
\<close>

theorem getpos_setpos_contract_witness:
  "mio_getpos (mio_new_memory [104, 105] 2 None False) \<lparr>pos_type = MIO_TYPE_FILE, pos_mem = 7\<rparr>
     = (0, \<lparr>pos_type = MIO_TYPE_MEMORY, pos_mem = 0\<rparr>, mio_new_memory [104, 105] 2 None False)
   \<and> mio_setpos ((mio_new_memory [104, 105] 2 None False)\<lparr>mem_ungetch := 104\<rparr>)
        \<lparr>pos_type = MIO_TYPE_MEMORY, pos_mem = 0\<rparr>
     = (0, mio_new_memory [104, 105] 2 None False)
   \<and> fst (mio_getpos (snd (mio_ungetc (mio_new_memory [104, 105] 2 None False) 120))
        \<lparr>pos_type = MIO_TYPE_FILE, pos_mem = 7\<rparr>) = - 1
   \<and> mio_setpos (mio_new_memory [104, 105] 2 None False)
        \<lparr>pos_type = MIO_TYPE_MEMORY, pos_mem = 3\<rparr>
     = (- 1, (mio_new_memory [104, 105] 2 None False)\<lparr>errno := Some EINVAL\<rparr>)"
  using getpos_setpos_contract [of "mio_new_memory [104, 105] 2 None False"
      "\<lparr>pos_type = MIO_TYPE_FILE, pos_mem = 7\<rparr>" 120]
    getpos_setpos_contract [of "(mio_new_memory [104, 105] 2 None False)\<lparr>mem_ungetch := 104\<rparr>"
      "\<lparr>pos_type = MIO_TYPE_MEMORY, pos_mem = 0\<rparr>" 120]
    getpos_setpos_contract [of "snd (mio_ungetc (mio_new_memory [104, 105] 2 None False) 120)"
      "\<lparr>pos_type = MIO_TYPE_FILE, pos_mem = 7\<rparr>" 120]
    getpos_setpos_contract [of "mio_new_memory [104, 105] 2 None False"
      "\<lparr>pos_type = MIO_TYPE_MEMORY, pos_mem = 3\<rparr>" 120]
  by (simp add: mio_new_memory_def mio_ungetc_def mio_getpos_def mio_setpos_def EOF_def Let_def)

subsection \<open>The error flag\<close>

lemma try_resize_error: "mem_error (snd (try_resize m n)) = mem_error m"
  by (simp add: try_resize_def Let_def split: option.splits)

lemma try_ensure_space_error: "mem_error (snd (try_ensure_space m n)) = mem_error m"
  by (simp add: try_ensure_space_def try_resize_error)

lemma try_ensure_space_error': "try_ensure_space m n = (b, m') \<Longrightarrow> mem_error m' = mem_error m"
  using try_ensure_space_error [of m n] by simp

lemma read_loop_error:
  "read_loop m ptr sz nmemb k = Some (n, p, m') \<Longrightarrow> mem_error m' = mem_error m"
proof (induction m ptr sz nmemb k rule: read_loop.induct)
  case (1 m ptr sz nmemb n_read)
  from "1.prems" show ?case
    by (subst (asm) read_loop.simps) (auto split: if_splits option.splits dest: "1.IH")
qed

lemma gets_loop_error:
  "gets_loop m s sz i = Some (j, s', m') \<Longrightarrow> mem_error m' = mem_error m"
proof (induction m s sz i rule: gets_loop.induct)
  case (1 m s sz i)
  from "1.prems" "1.IH" show ?case
    by (subst (asm) gets_loop.simps) (auto split: if_splits option.splits)
qed

lemma read_ungetch_error:
  "read_ungetch m ptr sz = Some (n, p, m') \<Longrightarrow> mem_error m' = mem_error m"
  by (auto simp: read_ungetch_def Let_def split: if_splits option.splits)

lemma mio_read_error:
  "mio_read m ptr sz nmemb = Some (n, p, m') \<Longrightarrow> mem_error m' = mem_error m"
  by (auto simp: mio_read_def split: if_splits option.splits dest!: read_ungetch_error read_loop_error)

lemma mio_write_error:
  "mio_write m ptr sz nmemb = Some (n, m') \<Longrightarrow> mem_error m' = mem_error m"
  by (auto simp: mio_write_def split: if_splits option.splits prod.splits bool.splits dest!: try_ensure_space_error')

lemma mio_putc_error:
  "mio_putc m c = Some (n, m') \<Longrightarrow> mem_error m' = mem_error m"
  by (auto simp: mio_putc_def split: if_splits option.splits prod.splits bool.splits dest!: try_ensure_space_error')

lemma mio_puts_error:
  "mio_puts m s = Some (n, m') \<Longrightarrow> mem_error m' = mem_error m"
  by (auto simp: mio_puts_def Let_def split: if_splits option.splits prod.splits bool.splits dest!: try_ensure_space_error')

lemma mio_vprintf_error:
  "mio_vprintf m f = Some (n, m') \<Longrightarrow> mem_error m' = mem_error m"
  by (auto simp: mio_vprintf_def Let_def split: if_splits option.splits prod.splits bool.splits dest!: try_ensure_space_error')

lemma mio_getc_error:
  "mio_getc m = Some (n, m') \<Longrightarrow> mem_error m' = mem_error m"
  by (auto simp: mio_getc_def split: if_splits option.splits)

lemma mio_gets_error:
  "mio_gets m s sz = Some (rv, s', m') \<Longrightarrow> mem_error m' = mem_error m"
  by (auto simp: mio_gets_def split: if_splits option.splits dest!: gets_loop_error)

lemma mio_ungetc_error: "mem_error (snd (mio_ungetc m ch)) = mem_error m"
  by (simp add: mio_ungetc_def)

lemma mio_seek_error: "mem_error (snd (mio_seek m offset whence)) = mem_error m"
  by (auto simp: mio_seek_def split: if_splits)

lemma mio_getpos_error: "mem_error (snd (snd (mio_getpos m pos))) = mem_error m"
  by (simp add: mio_getpos_def Let_def)

lemma mio_setpos_error: "mem_error (snd (mio_setpos m pos)) = mem_error m"
  by (simp add: mio_setpos_def)

lemma apply_op_error:
  "apply_op x m = Some m' \<Longrightarrow> mem_error m' \<Longrightarrow> mem_error m"
proof (cases x)
qed (auto simp: mio_clearerr_def mio_rewind_def mio_ungetc_error mio_seek_error mio_getpos_error mio_setpos_error
      dest: mio_read_error mio_write_error mio_putc_error mio_puts_error mio_vprintf_error mio_getc_error mio_gets_error)

lemma run_ops_error:
  "run_ops xs m = Some m' \<Longrightarrow> mem_error m' \<Longrightarrow> mem_error m"
  by (induction xs arbitrary: m) (auto split: option.splits dest: apply_op_error)


text \<open>
  C10. The error flag is false in a stream \<open>mio_new_memory\<close> has made, and
  \<open>mio_error\<close> returns 0 after every sequence of calls on it, whichever of them fail.
  No call raises the flag: if it is set after a call, it was set before. \<open>mio_clearerr\<close>
  and \<open>mio_rewind\<close> clear it.
\<close>

theorem error_flag_never_raised:
  "\<not> mem_error (mio_new_memory data sz realloc_func free_func)
   \<and> (run_ops xs (mio_new_memory data sz realloc_func free_func) = Some m' \<longrightarrow> mio_error m' = 0)
   \<and> (apply_op x m = Some m'' \<longrightarrow> mem_error m'' \<longrightarrow> mem_error m)
   \<and> \<not> mem_error (mio_clearerr m)
   \<and> \<not> mem_error (mio_rewind m)"
proof -
  have new: "\<not> mem_error (mio_new_memory data sz realloc_func free_func)"
    by (simp add: mio_new_memory_def)
  then have "run_ops xs (mio_new_memory data sz realloc_func free_func) = Some m'
      \<Longrightarrow> mio_error m' = 0"
    using run_ops_error [of xs _ m'] by (auto simp: mio_error_def)
  with new show ?thesis
    using apply_op_error [of x m m''] by (simp add: mio_clearerr_def mio_rewind_def)
qed

text \<open>
  A two-byte stream whose allocator always fails: a write that cannot grow, a seek out
  of bounds, a second push-back, reads up to the end of the data and a \<open>mio_putc\<close> that
  cannot grow. The first call of the list alone, on a stream whose flag is set, leaves
  it set.
\<close>

theorem error_flag_never_raised_witness:
  "run_ops [Op_write [1, 2, 3] 1 3, Op_seek 5 SEEK_SET, Op_ungetc 120, Op_ungetc 121,
            Op_getc, Op_getc, Op_getc, Op_getc, Op_putc 33, Op_error]
       (mio_new_memory [104, 105] 2 (Some (\<lambda>b n. None)) False)
     = Some ((mio_new_memory [104, 105] 2 (Some (\<lambda>b n. None)) False)
               \<lparr>mem_pos := 2, mem_eof := True, errno := Some EINVAL\<rparr>)
   \<and> mio_error ((mio_new_memory [104, 105] 2 (Some (\<lambda>b n. None)) False)
                  \<lparr>mem_pos := 2, mem_eof := True, errno := Some EINVAL\<rparr>) = 0
   \<and> apply_op (Op_write [1, 2, 3] 1 3)
        ((mio_new_memory [104, 105] 2 (Some (\<lambda>b n. None)) False)\<lparr>mem_error := True\<rparr>)
     = Some ((mio_new_memory [104, 105] 2 (Some (\<lambda>b n. None)) False)\<lparr>mem_error := True\<rparr>)
   \<and> mem_error ((mio_new_memory [104, 105] 2 (Some (\<lambda>b n. None)) False)\<lparr>mem_error := True\<rparr>)"
  using error_flag_never_raised
    [of "[104, 105]" 2 "Some (\<lambda>b n. None)" False
        "[Op_write [1, 2, 3] 1 3, Op_seek 5 SEEK_SET, Op_ungetc 120, Op_ungetc 121,
          Op_getc, Op_getc, Op_getc, Op_getc, Op_putc 33, Op_error]"
        "(mio_new_memory [104, 105] 2 (Some (\<lambda>b n. None)) False)
           \<lparr>mem_pos := 2, mem_eof := True, errno := Some EINVAL\<rparr>"
        "Op_write [1, 2, 3] 1 3"
        "(mio_new_memory [104, 105] 2 (Some (\<lambda>b n. None)) False)\<lparr>mem_error := True\<rparr>"
        "(mio_new_memory [104, 105] 2 (Some (\<lambda>b n. None)) False)\<lparr>mem_error := True\<rparr>"]
  by (simp add: mio_defs)

subsection \<open>Growth\<close>

lemma realloc_zero_fill_contract: "realloc_contract realloc_zero_fill"
  by (auto simp: realloc_contract_def realloc_zero_fill_def)

lemma try_resize_cases:
  assumes "try_resize m new_size = (b, m1)"
  shows "(\<not> b \<and> (m1 = m \<or> m1 = m\<lparr>errno := Some EOVERFLOW\<rparr>))
    \<or> (b \<and> mem_size m < new_size \<and> new_size \<le> mem_allocated_size m \<and> m1 = m\<lparr>mem_size := new_size\<rparr>)
    \<or> (b \<and> mem_size m < new_size \<and> mem_allocated_size m < new_size
        \<and> (\<exists>f newbuf. mem_realloc_func m = Some f
              \<and> f (mem_buf m) (max (mem_allocated_size m + MIO_CHUNK_SIZE) new_size) = Some newbuf
              \<and> m1 = m\<lparr>mem_buf := newbuf,
                        mem_allocated_size := max (mem_allocated_size m + MIO_CHUNK_SIZE) new_size,
                        mem_size := new_size\<rparr>))
    \<or> (b \<and> new_size \<le> mem_size m
        \<and> (\<exists>f newbuf. mem_realloc_func m = Some f
              \<and> (f (mem_buf m) new_size = Some newbuf \<or> f (mem_buf m) new_size = None \<and> new_size = 0 \<and> newbuf = [])
              \<and> m1 = m\<lparr>mem_buf := newbuf, mem_allocated_size := new_size, mem_size := new_size\<rparr>))"
  using assms
  by (auto simp: try_resize_def Let_def not_less not_le split: option.splits if_splits)


lemma realloc_keeps_prefix:
  assumes "realloc_contract f" and "f b n = Some b'" and "k \<le> length b" and "k \<le> unat n"
  shows "length b' = unat n \<and> take k b' = take k b"
proof -
  from assms(1,2) have len: "length b' = unat n"
    and pre: "take (min (length b) (unat n)) b' = take (min (length b) (unat n)) b"
    by (auto simp: realloc_contract_def)
  from assms(3,4) have "k \<le> min (length b) (unat n)"
    by simp
  then have "take k b' = take k (take (min (length b) (unat n)) b')"
    and "take k b = take k (take (min (length b) (unat n)) b)"
    by (simp_all add: min.absorb1)
  with pre len show ?thesis
    by simp
qed

lemma chunk_max_unat:
  fixes a need :: gsize
  assumes "unat a + unat MIO_CHUNK_SIZE < 2 ^ 64"
  shows "unat (max (a + MIO_CHUNK_SIZE) need) = max (unat a + unat MIO_CHUNK_SIZE) (unat need)"
proof -
  from assms have "unat (a + MIO_CHUNK_SIZE) = unat a + unat MIO_CHUNK_SIZE"
    by (simp add: unat_word_ariths)
  then show ?thesis
    by (simp add: max_def word_le_nat_alt)
qed

text \<open>
  What \<open>try_resize\<close> does with a size it is given. On a stream whose data fits its
  block, a required size \<open>need\<close> above the capacity makes it ask the callback for
  \<open>max (capacity + MIO_CHUNK_SIZE) need\<close> bytes (in \<open>gsize\<close> arithmetic, which is the
  sum of the numbers unless \<open>capacity + 4096\<close> passes \<open>2 ^ 64\<close>). If the callback
  returns a block, that size is the new capacity, \<open>need\<close> the new length, and with a
  callback that keeps the contract of \<open>realloc\<close> the bytes below the old length are
  the old ones. The call fails, with buffer, length and capacity as they were, when
  there is no callback, when the callback returns \<open>NULL\<close>, and when \<open>need\<close> is
  \<open>G_MAXSIZE\<close>, the one size the code answers with \<open>EOVERFLOW\<close>.
\<close>

theorem try_resize_growth:
  assumes "mem_size m \<le> mem_allocated_size m" and "mem_allocated_size m < need"
  shows "(mem_realloc_func m = None \<longrightarrow> try_resize m need = (False, m))
    \<and> (need = G_MAXSIZE \<longrightarrow>
         \<not> fst (try_resize m need)
         \<and> mem_buf (snd (try_resize m need)) = mem_buf m
         \<and> mem_size (snd (try_resize m need)) = mem_size m
         \<and> mem_allocated_size (snd (try_resize m need)) = mem_allocated_size m)
    \<and> (mem_realloc_func m = Some f \<and> need \<noteq> G_MAXSIZE
         \<and> f (mem_buf m) (max (mem_allocated_size m + MIO_CHUNK_SIZE) need) = None \<longrightarrow>
         try_resize m need = (False, m))
    \<and> (mem_realloc_func m = Some f \<and> need \<noteq> G_MAXSIZE
         \<and> f (mem_buf m) (max (mem_allocated_size m + MIO_CHUNK_SIZE) need) = Some b' \<longrightarrow>
         try_resize m need
           = (True, m\<lparr>mem_buf := b',
                      mem_allocated_size := max (mem_allocated_size m + MIO_CHUNK_SIZE) need,
                      mem_size := need\<rparr>)
         \<and> (unat (mem_allocated_size m) + unat MIO_CHUNK_SIZE < 2 ^ 64 \<longrightarrow>
              unat (max (mem_allocated_size m + MIO_CHUNK_SIZE) need)
                = max (unat (mem_allocated_size m) + unat MIO_CHUNK_SIZE) (unat need))
         \<and> (realloc_contract f \<and> unat (mem_size m) \<le> length (mem_buf m) \<longrightarrow>
              length b' = unat (max (mem_allocated_size m + MIO_CHUNK_SIZE) need)
              \<and> take (unat (mem_size m)) b' = take (unat (mem_size m)) (mem_buf m)))
    \<and> try_ensure_space m n
         = (if mem_size m < mem_pos m + n then try_resize m (mem_pos m + n) else (True, m))"
proof -
  from assms have gt: "mem_size m < need" and ngt: "\<not> need \<le> mem_allocated_size m"
    by auto
  have a: "mem_realloc_func m = None \<longrightarrow> try_resize m need = (False, m)"
    by (simp add: try_resize_def)
  have b: "need = G_MAXSIZE \<longrightarrow>
         \<not> fst (try_resize m need)
         \<and> mem_buf (snd (try_resize m need)) = mem_buf m
         \<and> mem_size (snd (try_resize m need)) = mem_size m
         \<and> mem_allocated_size (snd (try_resize m need)) = mem_allocated_size m"
    by (simp add: try_resize_def split: option.splits)
  have c: "mem_realloc_func m = Some f \<and> need \<noteq> G_MAXSIZE
         \<and> f (mem_buf m) (max (mem_allocated_size m + MIO_CHUNK_SIZE) need) = None \<longrightarrow>
         try_resize m need = (False, m)"
    using gt ngt by (simp add: try_resize_def Let_def)
  have d1: "mem_realloc_func m = Some f \<and> need \<noteq> G_MAXSIZE
         \<and> f (mem_buf m) (max (mem_allocated_size m + MIO_CHUNK_SIZE) need) = Some b' \<longrightarrow>
         try_resize m need
           = (True, m\<lparr>mem_buf := b',
                      mem_allocated_size := max (mem_allocated_size m + MIO_CHUNK_SIZE) need,
                      mem_size := need\<rparr>)"
    using gt ngt by (simp add: try_resize_def Let_def)
  have d2: "unat (mem_allocated_size m) + unat MIO_CHUNK_SIZE < 2 ^ 64 \<longrightarrow>
              unat (max (mem_allocated_size m + MIO_CHUNK_SIZE) need)
                = max (unat (mem_allocated_size m) + unat MIO_CHUNK_SIZE) (unat need)"
    using chunk_max_unat by blast
  have "unat (mem_size m) \<le> unat (max (mem_allocated_size m + MIO_CHUNK_SIZE) need)"
    using gt by (simp add: word_le_nat_alt [symmetric] max.coboundedI2 less_imp_le)
  then have d3: "f (mem_buf m) (max (mem_allocated_size m + MIO_CHUNK_SIZE) need) = Some b'
         \<and> realloc_contract f \<and> unat (mem_size m) \<le> length (mem_buf m) \<longrightarrow>
              length b' = unat (max (mem_allocated_size m + MIO_CHUNK_SIZE) need)
              \<and> take (unat (mem_size m)) b' = take (unat (mem_size m)) (mem_buf m)"
    using realloc_keeps_prefix [of f "mem_buf m" _ b' "unat (mem_size m)"] by blast
  have e: "try_ensure_space m n
         = (if mem_size m < mem_pos m + n then try_resize m (mem_pos m + n) else (True, m))"
    by (simp add: try_ensure_space_def)
  from a b c d1 d2 d3 e show ?thesis
    by blast
qed

text \<open>
  A two-byte stream asked for 5 bytes: with the zero-filling allocator the capacity
  becomes 4098; with no callback, with a callback that fails, and for the size
  \<open>G_MAXSIZE\<close> the call fails.
\<close>

theorem try_resize_growth_witness:
  "try_resize (mio_new_memory [104, 105] 2 (Some realloc_zero_fill) False) 5
     = (True, (mio_new_memory [104, 105] 2 (Some realloc_zero_fill) False)
                \<lparr>mem_buf := 104 # 105 # replicate 4096 0,
                 mem_allocated_size := 4098,
                 mem_size := 5\<rparr>)
   \<and> take 2 (104 # 105 # replicate 4096 (0 :: guchar)) = [104, 105]
   \<and> try_resize (mio_new_memory [104, 105] 2 None False) 5
     = (False, mio_new_memory [104, 105] 2 None False)
   \<and> try_resize (mio_new_memory [104, 105] 2 (Some (\<lambda>b n. None)) False) 5
     = (False, mio_new_memory [104, 105] 2 (Some (\<lambda>b n. None)) False)
   \<and> \<not> fst (try_resize (mio_new_memory [104, 105] 2 (Some realloc_zero_fill) False) G_MAXSIZE)"
  using try_resize_growth
      [of "mio_new_memory [104, 105] 2 (Some realloc_zero_fill) False" 5
          realloc_zero_fill "104 # 105 # replicate 4096 0" 0]
    try_resize_growth [of "mio_new_memory [104, 105] 2 None False" 5 realloc_zero_fill "[]" 0]
    try_resize_growth
      [of "mio_new_memory [104, 105] 2 (Some (\<lambda>b n. None)) False" 5 "\<lambda>b n. None" "[]" 0]
    try_resize_growth
      [of "mio_new_memory [104, 105] 2 (Some realloc_zero_fill) False" G_MAXSIZE
          realloc_zero_fill "[]" 0]
    realloc_zero_fill_contract
  by (simp add: mio_new_memory_def realloc_zero_fill_def G_MAXSIZE_def MIO_CHUNK_SIZE_def)

text \<open>
  C4. The required size \<open>mem_pos + n\<close> is added in \<open>gsize\<close> by \<open>try_ensure_space\<close>,
  with no test for wrap-around, so a required size above \<open>G_MAXSIZE\<close> is not seen as
  an overflow. After \<open>mio_ungetc\<close> at position 0 the cursor is \<open>(gsize)-1\<close>; one more
  byte needs \<open>2 ^ 64\<close> bytes, the sum wraps to 0, and \<open>try_ensure_space\<close> returns
  \<open>TRUE\<close> with the stream as it was, where the claim has the call fail: \<open>mio_putc\<close>
  then stores outside the block. The same happens with the cursor at 1 and
  \<open>G_MAXSIZE\<close> bytes asked for. Only the required size \<open>G_MAXSIZE\<close> itself, here the
  cursor at 0 and \<open>G_MAXSIZE\<close> bytes, reaches the overflow branch of \<open>try_resize\<close> and
  fails with \<open>EOVERFLOW\<close>.
\<close>

theorem try_ensure_space_wrap_undetected:
  "mio_ungetc (mio_new_memory [97, 98] 2 (Some realloc_zero_fill) False) 120
     = (120, (mio_new_memory [97, 98] 2 (Some realloc_zero_fill) False)
               \<lparr>mem_ungetch := 120, mem_pos := - 1\<rparr>)
   \<and> unat (- 1 :: gsize) + unat (1 :: gsize) = 2 ^ 64
   \<and> try_ensure_space
        ((mio_new_memory [97, 98] 2 (Some realloc_zero_fill) False)
           \<lparr>mem_ungetch := 120, mem_pos := - 1\<rparr>) 1
     = (True, (mio_new_memory [97, 98] 2 (Some realloc_zero_fill) False)
                \<lparr>mem_ungetch := 120, mem_pos := - 1\<rparr>)
   \<and> mio_putc
        ((mio_new_memory [97, 98] 2 (Some realloc_zero_fill) False)
           \<lparr>mem_ungetch := 120, mem_pos := - 1\<rparr>) 121
     = None
   \<and> unat (1 :: gsize) + unat (- 1 :: gsize) = 2 ^ 64
   \<and> try_ensure_space
        ((mio_new_memory [97, 98] 2 (Some realloc_zero_fill) False)\<lparr>mem_pos := 1\<rparr>) (- 1)
     = (True, (mio_new_memory [97, 98] 2 (Some realloc_zero_fill) False)\<lparr>mem_pos := 1\<rparr>)
   \<and> try_ensure_space (mio_new_memory [97, 98] 2 (Some realloc_zero_fill) False) (- 1)
     = (False, (mio_new_memory [97, 98] 2 (Some realloc_zero_fill) False)
                 \<lparr>errno := Some EOVERFLOW\<rparr>)"
  by (simp add: mio_defs word_le_nat_alt word_less_nat_alt unsigned_minus_1_eq_mask
      mask_eq_exp_minus_1)

subsection \<open>Writing\<close>

lemma try_ensure_space_cases:
  assumes "try_ensure_space m n = (b, m1)"
  shows "(\<not> b \<and> mem_size m < mem_pos m + n \<and> (m1 = m \<or> m1 = m\<lparr>errno := Some EOVERFLOW\<rparr>))
    \<or> (b \<and> mem_pos m + n \<le> mem_size m \<and> m1 = m)
    \<or> (b \<and> mem_size m < mem_pos m + n \<and> mem_pos m + n \<le> mem_allocated_size m
        \<and> m1 = m\<lparr>mem_size := mem_pos m + n\<rparr>)
    \<or> (b \<and> mem_size m < mem_pos m + n \<and> mem_allocated_size m < mem_pos m + n
        \<and> (\<exists>f newbuf. mem_realloc_func m = Some f
              \<and> f (mem_buf m) (max (mem_allocated_size m + MIO_CHUNK_SIZE) (mem_pos m + n)) = Some newbuf
              \<and> m1 = m\<lparr>mem_buf := newbuf,
                        mem_allocated_size := max (mem_allocated_size m + MIO_CHUNK_SIZE) (mem_pos m + n),
                        mem_size := mem_pos m + n\<rparr>))"
proof (cases "mem_size m < mem_pos m + n")
  case True
  with assms have "try_resize m (mem_pos m + n) = (b, m1)"
    by (simp add: try_ensure_space_def)
  from try_resize_cases [OF this] True show ?thesis
    by (auto simp: not_le)
next
  case False
  with assms show ?thesis
    by (auto simp: try_ensure_space_def not_less)
qed

lemma try_ensure_space_fits:
  assumes inv: "stream_inv m"
    and nowrap: "unat (mem_pos m) + unat n < 2 ^ 64"
    and ok: "try_ensure_space m n = (True, m1)"
  shows "stream_inv m1
    \<and> unat (mem_pos m) + unat n \<le> unat (mem_size m1)
    \<and> mem_size m \<le> mem_size m1
    \<and> mem_pos m1 = mem_pos m
    \<and> mem_ungetch m1 = mem_ungetch m
    \<and> mem_realloc_func m1 = mem_realloc_func m
    \<and> take (unat (mem_size m)) (mem_buf m1) = take (unat (mem_size m)) (mem_buf m)"
proof -
  from nowrap have sum: "unat (mem_pos m + n) = unat (mem_pos m) + unat n"
    by (simp add: unat_word_ariths)
  from inv have len: "length (mem_buf m) = unat (mem_allocated_size m)"
    and le: "unat (mem_size m) \<le> unat (mem_allocated_size m)"
    by (simp_all add: stream_inv_def word_le_nat_alt)
  from try_ensure_space_cases [OF ok]
  consider (fits) "mem_pos m + n \<le> mem_size m" "m1 = m"
    | (raise) "mem_size m < mem_pos m + n" "mem_pos m + n \<le> mem_allocated_size m"
        "m1 = m\<lparr>mem_size := mem_pos m + n\<rparr>"
    | (grow) f newbuf where "mem_size m < mem_pos m + n" "mem_allocated_size m < mem_pos m + n"
        "mem_realloc_func m = Some f"
        "f (mem_buf m) (max (mem_allocated_size m + MIO_CHUNK_SIZE) (mem_pos m + n)) = Some newbuf"
        "m1 = m\<lparr>mem_buf := newbuf,
                 mem_allocated_size := max (mem_allocated_size m + MIO_CHUNK_SIZE) (mem_pos m + n),
                 mem_size := mem_pos m + n\<rparr>"
    by auto
  then show ?thesis
  proof cases
    case fits
    with inv sum show ?thesis
      by (simp add: word_le_nat_alt)
  next
    case raise
    with inv sum show ?thesis
      by (simp add: stream_inv_def word_le_nat_alt word_less_nat_alt)
  next
    case grow
    from inv grow(3) have con: "realloc_contract f"
      by (simp add: stream_inv_def)
    have big: "unat (mem_size m) \<le> unat (max (mem_allocated_size m + MIO_CHUNK_SIZE) (mem_pos m + n))"
      using grow(1) by (simp add: word_le_nat_alt [symmetric] max.coboundedI2 less_imp_le)
    from realloc_keeps_prefix [OF con grow(4) _ big] le len
    have "length newbuf = unat (max (mem_allocated_size m + MIO_CHUNK_SIZE) (mem_pos m + n))"
      and "take (unat (mem_size m)) newbuf = take (unat (mem_size m)) (mem_buf m)"
      by simp_all
    moreover have "unat (mem_pos m + n)
        \<le> unat (max (mem_allocated_size m + MIO_CHUNK_SIZE) (mem_pos m + n))"
      by (simp add: word_le_nat_alt [symmetric])
    ultimately show ?thesis
      using grow inv sum by (simp add: stream_inv_def word_le_nat_alt word_less_nat_alt)
  qed
qed

lemma store_bytes_Some:
  assumes "store_bytes dst off bs = Some d"
  shows "length d = length dst
    \<and> take off d = take off dst
    \<and> take (length bs) (drop off d) = bs
    \<and> drop (off + length bs) d = drop (off + length bs) dst
    \<and> off + length bs \<le> length dst"
  using assms by (auto simp: store_bytes_def split: if_splits)

lemma memcpy_Some:
  assumes "memcpy dst doff src soff n = Some d"
  shows "length d = length dst
    \<and> take doff d = take doff dst
    \<and> take n (drop doff d) = take n (drop soff src)
    \<and> drop (doff + n) d = drop (doff + n) dst
    \<and> doff + n \<le> length dst \<and> soff + n \<le> length src"
proof -
  from assms obtain bs where l: "load_bytes src soff n = Some bs" and s: "store_bytes dst doff bs = Some d"
    by (auto simp: memcpy_def split: option.splits)
  from l have "bs = take n (drop soff src)" and "soff + n \<le> length src"
    by (auto simp: load_bytes_def split: if_splits)
  then have "length bs = n" by simp
  with store_bytes_Some [OF s] \<open>bs = take n (drop soff src)\<close> \<open>soff + n \<le> length src\<close>
  show ?thesis by simp
qed

lemma memcpy_defined:
  "doff + n \<le> length dst \<Longrightarrow> soff + n \<le> length src \<Longrightarrow> memcpy dst doff src soff n \<noteq> None"
  by (simp add: memcpy_def load_bytes_def store_bytes_def)

lemma mio_write_result:
  assumes "mio_write m ptr sz nmemb = Some (r, m')"
  shows "(r = nmemb \<and> mem_pos m' = mem_pos m + nmemb * sz \<and> mem_pos m' \<le> mem_size m'
          \<and> load_bytes (mem_buf m') (unat (mem_pos m)) (unat (sz * nmemb))
              = Some (take (unat (sz * nmemb)) ptr))
    \<or> (r = 0 \<and> mem_buf m' = mem_buf m \<and> mem_size m' = mem_size m \<and> mem_pos m' = mem_pos m
          \<and> mem_allocated_size m' = mem_allocated_size m)"
proof (cases "sz \<noteq> 0 \<and> nmemb \<noteq> 0")
  case False
  with assms show ?thesis by (auto simp: mio_write_def)
next
  case True
  obtain b m1 where tes: "try_ensure_space m (sz * nmemb) = (b, m1)"
    by (cases "try_ensure_space m (sz * nmemb)")
  show ?thesis
  proof (cases b)
    case False
    with assms True tes have "r = 0" "m' = m1" by (simp_all add: mio_write_def)
    with try_ensure_space_cases [OF tes] False show ?thesis by auto
  next
    case b: True
    with assms True tes obtain d where
      cp: "memcpy (mem_buf m1) (unat (mem_pos m1)) ptr 0 (unat (sz * nmemb)) = Some d"
      and r: "r = nmemb" and m': "m' = m1\<lparr>mem_buf := d, mem_pos := mem_pos m1 + sz * nmemb\<rparr>"
      by (auto simp: mio_write_def split: option.splits)
    from try_ensure_space_cases [OF tes] b
    have pos: "mem_pos m1 = mem_pos m" and fit: "mem_pos m + sz * nmemb \<le> mem_size m1"
      by auto
    from memcpy_Some [OF cp]
    have "load_bytes d (unat (mem_pos m1)) (unat (sz * nmemb)) = Some (take (unat (sz * nmemb)) ptr)"
      by (simp add: load_bytes_def)
    with r m' pos fit show ?thesis
      by (simp add: mult.commute)
  qed
qed

lemma mio_write_growth_failure:
  assumes "sz \<noteq> 0" "nmemb \<noteq> 0" "\<not> fst (try_ensure_space m (sz * nmemb))"
  shows "mio_write m ptr sz nmemb = Some (0, snd (try_ensure_space m (sz * nmemb)))
    \<and> (snd (try_ensure_space m (sz * nmemb)) = m
       \<or> snd (try_ensure_space m (sz * nmemb)) = m\<lparr>errno := Some EOVERFLOW\<rparr>)"
proof -
  obtain b m1 where tes: "try_ensure_space m (sz * nmemb) = (b, m1)"
    by (cases "try_ensure_space m (sz * nmemb)")
  with assms have "\<not> b" by simp
  with try_ensure_space_cases [OF tes] tes assms show ?thesis
    by (auto simp: mio_write_def)
qed

lemma mio_write_defined:
  assumes inv: "stream_inv m" and src: "unat (sz * nmemb) \<le> length ptr"
    and nowrap: "unat (mem_pos m) + unat (sz * nmemb) < 2 ^ 64"
  shows "mio_write m ptr sz nmemb \<noteq> None"
proof (cases "sz \<noteq> 0 \<and> nmemb \<noteq> 0")
  case False
  then show ?thesis by (auto simp: mio_write_def)
next
  case True
  obtain b m1 where tes: "try_ensure_space m (sz * nmemb) = (b, m1)"
    by (cases "try_ensure_space m (sz * nmemb)")
  show ?thesis
  proof (cases b)
    case False
    with True tes show ?thesis by (simp add: mio_write_def)
  next
    case b: True
    from tes b have "try_ensure_space m (sz * nmemb) = (True, m1)"
      by simp
    from try_ensure_space_fits [OF inv nowrap this]
    have "stream_inv m1" and "unat (mem_pos m) + unat (sz * nmemb) \<le> unat (mem_size m1)"
      and "mem_pos m1 = mem_pos m"
      by simp_all
    then have "unat (mem_pos m1) + unat (sz * nmemb) \<le> length (mem_buf m1)"
      by (simp add: stream_inv_def word_le_nat_alt)
    from memcpy_defined [OF this, of 0 ptr] src
    have "memcpy (mem_buf m1) (unat (mem_pos m1)) ptr 0 (unat (sz * nmemb)) \<noteq> None"
      by simp
    with True tes b show ?thesis
      by (auto simp: mio_write_def)
  qed
qed

lemma unat_mult_exact:
  fixes a b :: gsize
  assumes "unat a * unat b < 2 ^ 64"
  shows "unat (a * b) = unat a * unat b"
  using assms by (simp add: unat_word_ariths)

text \<open>
  C3. Whenever \<open>mio_write\<close> returns, it has either met the whole request or done
  nothing: it returns \<open>nmemb\<close>, the position is the old one plus \<open>nmemb * sz\<close>, the
  length is at least the new position and the bytes of the request are in the buffer
  at the old position; or it returns 0 with buffer, length, capacity and position as
  they were. When growth fails it is the second: it returns 0, and the stream is the
  one given (with \<open>errno\<close> assigned if the size asked for was \<open>G_MAXSIZE\<close>). The
  position is also the sum of the numbers when that sum is below \<open>2 ^ 64\<close>. And
  \<open>mio_write\<close> does return, staying inside its blocks, on a stream that keeps its
  invariant when the caller's array holds the bytes to write and the end of the
  write is below \<open>2 ^ 64\<close>.
\<close>

theorem mio_write_all_or_nothing:
  "(mio_write m ptr sz nmemb = Some (r, m') \<longrightarrow>
      (r = nmemb \<and> mem_pos m' = mem_pos m + nmemb * sz \<and> mem_pos m' \<le> mem_size m'
         \<and> load_bytes (mem_buf m') (unat (mem_pos m)) (unat (sz * nmemb))
             = Some (take (unat (sz * nmemb)) ptr))
      \<or> (r = 0 \<and> mem_buf m' = mem_buf m \<and> mem_size m' = mem_size m
         \<and> mem_pos m' = mem_pos m \<and> mem_allocated_size m' = mem_allocated_size m))
   \<and> (mio_write m ptr sz nmemb = Some (r, m') \<and> r \<noteq> 0
        \<and> unat (mem_pos m) + unat nmemb * unat sz < 2 ^ 64 \<longrightarrow>
      unat (mem_pos m') = unat (mem_pos m) + unat nmemb * unat sz
      \<and> unat (mem_pos m') \<le> unat (mem_size m'))
   \<and> (sz \<noteq> 0 \<and> nmemb \<noteq> 0 \<and> \<not> fst (try_ensure_space m (sz * nmemb)) \<longrightarrow>
      mio_write m ptr sz nmemb = Some (0, snd (try_ensure_space m (sz * nmemb)))
      \<and> (snd (try_ensure_space m (sz * nmemb)) = m
         \<or> snd (try_ensure_space m (sz * nmemb)) = m\<lparr>errno := Some EOVERFLOW\<rparr>))
   \<and> (stream_inv m \<and> unat (sz * nmemb) \<le> length ptr
        \<and> unat (mem_pos m) + unat (sz * nmemb) < 2 ^ 64 \<longrightarrow>
      mio_write m ptr sz nmemb \<noteq> None)"
proof -
  have exact: "unat (mem_pos m') = unat (mem_pos m) + unat nmemb * unat sz
      \<and> unat (mem_pos m') \<le> unat (mem_size m')"
    if ret: "mio_write m ptr sz nmemb = Some (r, m')" and "r \<noteq> 0"
      and small: "unat (mem_pos m) + unat nmemb * unat sz < 2 ^ 64"
  proof -
    from mio_write_result [OF ret] \<open>r \<noteq> 0\<close>
    have pos: "mem_pos m' = mem_pos m + nmemb * sz" and le: "mem_pos m' \<le> mem_size m'"
      by auto
    from small have "unat (nmemb * sz) = unat nmemb * unat sz"
      by (intro unat_mult_exact) simp
    with small have "unat (mem_pos m + nmemb * sz) = unat (mem_pos m) + unat nmemb * unat sz"
      by (simp add: unat_word_ariths)
    with pos le show ?thesis
      by (simp add: word_le_nat_alt)
  qed
  from mio_write_result [of m ptr sz nmemb r m'] exact
    mio_write_growth_failure [of sz nmemb m ptr] mio_write_defined [of m sz nmemb ptr]
  show ?thesis
    by blast
qed

text \<open>
  Three bytes written to a two-byte stream: with the zero-filling allocator the write
  is met in full, with no callback it fails and the stream is as it was.
\<close>

theorem mio_write_all_or_nothing_witness:
  "mio_write (mio_new_memory [104, 105] 2 (Some realloc_zero_fill) False) [1, 2, 3] 1 3
     = Some (3, (mio_new_memory [104, 105] 2 (Some realloc_zero_fill) False)
                  \<lparr>mem_buf := 1 # 2 # 3 # replicate 4095 0,
                   mem_allocated_size := 4098,
                   mem_size := 3,
                   mem_pos := 3\<rparr>)
   \<and> stream_inv (mio_new_memory [104, 105] 2 (Some realloc_zero_fill) False)
   \<and> \<not> fst (try_ensure_space (mio_new_memory [104, 105] 2 None False) (1 * 3))
   \<and> mio_write (mio_new_memory [104, 105] 2 None False) [1, 2, 3] 1 3
     = Some (0, mio_new_memory [104, 105] 2 None False)"
  using mio_write_all_or_nothing
      [of "mio_new_memory [104, 105] 2 (Some realloc_zero_fill) False" "[1, 2, 3]" 1 3 3
          "(mio_new_memory [104, 105] 2 (Some realloc_zero_fill) False)
             \<lparr>mem_buf := 1 # 2 # 3 # replicate 4095 0,
              mem_allocated_size := 4098,
              mem_size := 3,
              mem_pos := 3\<rparr>"]
    mio_write_all_or_nothing
      [of "mio_new_memory [104, 105] 2 None False" "[1, 2, 3]" 1 3 0
          "mio_new_memory [104, 105] 2 None False"]
    realloc_zero_fill_contract
  by (simp add: mio_defs stream_inv_def realloc_zero_fill_def)

subsection \<open>Reading\<close>

text \<open>
  C2. The stream holds the two bytes \<open>ab\<close>; \<open>mio_getc\<close> reads \<open>a\<close> and \<open>mio_ungetc\<close>
  pushes it back, so the cursor is 0 again with the push-back byte pending. A
  \<open>mio_read\<close> of one record of four bytes then finds less than a record. It returns 0
  records, yet it has stored the push-back byte in the caller's array, has dropped it
  from the stream and has moved the cursor to 1. The same call without a push-back
  byte leaves the array and the stream as they were.
\<close>

theorem mio_read_pushback_partial_record:
  "mio_getc (mio_new_memory [97, 98] 2 None False)
     = Some (97, (mio_new_memory [97, 98] 2 None False)\<lparr>mem_pos := 1\<rparr>)
   \<and> mio_ungetc ((mio_new_memory [97, 98] 2 None False)\<lparr>mem_pos := 1\<rparr>) 97
     = (97, (mio_new_memory [97, 98] 2 None False)\<lparr>mem_ungetch := 97\<rparr>)
   \<and> mio_read ((mio_new_memory [97, 98] 2 None False)\<lparr>mem_ungetch := 97\<rparr>) [0, 0, 0, 0] 4 1
     = Some (0, [97, 0, 0, 0], (mio_new_memory [97, 98] 2 None False)\<lparr>mem_pos := 1\<rparr>)
   \<and> mio_read (mio_new_memory [97, 98] 2 None False) [0, 0, 0, 0] 4 1
     = Some (0, [0, 0, 0, 0], mio_new_memory [97, 98] 2 None False)"
  by (simp add: mio_defs read_loop.simps word_le_nat_alt word_less_nat_alt)




subsection \<open>Writing, rewinding and reading back\<close>








subsection \<open>Formatted print\<close>

lemma unat_ucast_guint: "unat (ucast (w :: gint) :: gsize) = unat w"
proof -
  have "unat w < 2 ^ LENGTH(32)" by (rule unsigned_less)
  also have "(2::nat) ^ LENGTH(32) \<le> 2 ^ 64" by simp
  finally have "take_bit 64 (unat w) = unat w"
    by (simp only: take_bit_nat_eq_self)
  then show ?thesis
    by (simp add: unsigned_ucast_eq)
qed

lemma guint_succ:
  fixes n :: gint
  assumes "0 \<le> sint n"
  shows "unat (n + 1) = unat n + 1"
proof -
  from assms have "sint n = uint n" by (rule sint_nonneg_uint)
  moreover have "sint n < 2 ^ (LENGTH(32) - 1)" by (rule sint_lt)
  ultimately have "uint n < 2 ^ 31" by simp
  then have "int (unat n) < 2 ^ 31" by (simp only: uint_nat)
  then have "int (unat n) < int (2 ^ 31)" by simp
  then have small: "unat n < 2 ^ 31" by (simp only: of_nat_less_iff)
  then show "unat (n + 1) = unat n + 1"
    by (simp add: unat_word_ariths)
qed


lemma overwrite_restore:
  assumes "p + n < length B" and "length out \<le> n + 1" and "i < p \<or> p + n \<le> i" and "i < length B"
  shows "((take p B @ out @ drop (p + length out) B)[p + n := B ! (p + n)]) ! i = B ! i"
proof (cases "i = p + n")
  case True
  with assms show ?thesis by simp
next
  case False
  with assms have "i < p \<or> p + length out \<le> i" by auto
  with assms False show ?thesis
    by (auto simp: nth_append)
qed

lemma try_ensure_space_flags:
  "try_ensure_space m n = (b, m1) \<Longrightarrow>
     mem_pos m1 = mem_pos m \<and> mem_ungetch m1 = mem_ungetch m
     \<and> mem_eof m1 = mem_eof m \<and> mem_error m1 = mem_error m
     \<and> mem_realloc_func m1 = mem_realloc_func m"
  by (drule try_ensure_space_cases) auto

text \<open>
  C7, as the claim states it, fails. The stream holds \<open>abcdef\<close> with the cursor at 0;
  the dry run announces 3 characters and the real run returns 2. \<open>mio_vprintf\<close> returns
  -1 and the length is 6 as before, but the first three bytes of the valid data are
  now \<open>XY\<close> and the terminator: the next \<open>mio_getc\<close> returns \<open>X\<close> where it returned
  \<open>a\<close> before the call.
\<close>

theorem mio_vprintf_mismatch_counterexample:
  "snd (vsnprintf_short 1) \<noteq> snd (vsnprintf_short 4)
   \<and> mio_vprintf (mio_new_memory [97, 98, 99, 100, 101, 102] 6 None False) vsnprintf_short
     = Some (- 1, (mio_new_memory [97, 98, 99, 100, 101, 102] 6 None False)
                    \<lparr>mem_buf := [88, 89, 0, 100, 101, 102]\<rparr>)
   \<and> mio_getc (mio_new_memory [97, 98, 99, 100, 101, 102] 6 None False)
     = Some (97, (mio_new_memory [97, 98, 99, 100, 101, 102] 6 None False)\<lparr>mem_pos := 1\<rparr>)
   \<and> mio_getc ((mio_new_memory [97, 98, 99, 100, 101, 102] 6 None False)
                  \<lparr>mem_buf := [88, 89, 0, 100, 101, 102]\<rparr>)
     = Some (88, (mio_new_memory [97, 98, 99, 100, 101, 102] 6 None False)
                   \<lparr>mem_buf := [88, 89, 0, 100, 101, 102], mem_pos := 1\<rparr>)"
  by (simp add: mio_defs vsnprintf_short_def)

text \<open>
  C7, amended. The stream keeps its invariant, the dry run returns \<open>n \<ge> 0\<close>, the end
  of the text with its terminator is below \<open>2 ^ 64\<close>, and the real run, which stores
  at most \<open>n + 1\<close> bytes, returns something else than \<open>n\<close>. Then \<open>mio_vprintf\<close>
  returns -1; the length, the cursor, the push-back byte and the flags are those
  before the call; and every byte of the valid data outside the \<open>n\<close> bytes at the
  cursor is what it was, the byte at \<open>mem_pos + n\<close> included. The \<open>n\<close> bytes at the
  cursor and the capacity are not promised.
\<close>

theorem mio_vprintf_mismatch:
  assumes inv: "stream_inv m"
    and dry: "snd (vsnprintf 1) = n" and nonneg: "0 \<le> sint n"
    and nowrap: "unat (mem_pos m) + unat n + 1 < 2 ^ 64"
    and real: "vsnprintf (unat (n + 1)) = (out, rv)"
    and bound: "length out \<le> unat n + 1"
    and mismatch: "\<not> (0 \<le> sint rv \<and> rv = n)"
  shows "\<exists>m'. mio_vprintf m vsnprintf = Some (- 1, m')
    \<and> mem_size m' = mem_size m \<and> mem_pos m' = mem_pos m
    \<and> mem_ungetch m' = mem_ungetch m \<and> mem_eof m' = mem_eof m \<and> mem_error m' = mem_error m
    \<and> (\<forall>i < unat (mem_size m). i < unat (mem_pos m) \<or> unat (mem_pos m) + unat n \<le> i
          \<longrightarrow> mem_buf m' ! i = mem_buf m ! i)"
proof -
  let ?N = "ucast (n + 1) :: gsize"
  let ?p = "unat (mem_pos m)"
  have N: "unat ?N = unat n + 1"
    using guint_succ [OF nonneg] by (simp add: unat_ucast_guint)
  obtain b m1 where tes: "try_ensure_space m ?N = (b, m1)"
    by (cases "try_ensure_space m ?N")
  note flags = try_ensure_space_flags [OF tes]
  show ?thesis
  proof (cases b)
    case False
    with tes dry nonneg have "mio_vprintf m vsnprintf = Some (- 1, m1)"
      by (simp add: mio_vprintf_def Let_def)
    moreover from try_ensure_space_cases [OF tes] False
    have "mem_size m1 = mem_size m" and "mem_buf m1 = mem_buf m"
      by auto
    ultimately show ?thesis
      using flags by simp
  next
    case True
    with tes have tes': "try_ensure_space m ?N = (True, m1)"
      by simp
    from nowrap N have "unat (mem_pos m) + unat ?N < 2 ^ 64"
      by simp
    from try_ensure_space_fits [OF inv this tes'] N
    have inv1: "stream_inv m1" and fit: "?p + unat n + 1 \<le> unat (mem_size m1)"
      and keep: "take (unat (mem_size m)) (mem_buf m1) = take (unat (mem_size m)) (mem_buf m)"
      by simp_all
    let ?B = "mem_buf m1"
    from inv1 fit have len: "?p + unat n < length ?B"
      by (simp add: stream_inv_def word_le_nat_alt)
    from nowrap have k: "unat (mem_pos m1 + ucast n) = ?p + unat n"
      using flags by (simp add: unat_word_ariths unat_ucast_guint)
    let ?b1 = "take ?p ?B @ out @ drop (?p + length out) ?B"
    let ?b2 = "?b1[?p + unat n := ?B ! (?p + unat n)]"
    from len k have ld: "load_byte ?B (unat (mem_pos m1 + ucast n)) = Some (?B ! (?p + unat n))"
      by (simp add: load_byte_def)
    from len bound have st: "store_bytes ?B (unat (mem_pos m1)) out = Some ?b1"
      using flags by (simp add: store_bytes_def)
    from len bound k have sb: "store_byte ?b1 (unat (mem_pos m1 + ucast n)) (?B ! (?p + unat n)) = Some ?b2"
      by (simp add: store_byte_def)
    from tes' dry nonneg real mismatch ld st sb
    have res: "mio_vprintf m vsnprintf = Some (- 1, m1\<lparr>mem_buf := ?b2, mem_size := mem_size m\<rparr>)"
      by (auto simp: mio_vprintf_def Let_def)
    have nth: "?b2 ! i = mem_buf m ! i"
      if "i < unat (mem_size m)" and "i < ?p \<or> ?p + unat n \<le> i" for i
    proof -
      from try_ensure_space_fits [OF inv \<open>unat (mem_pos m) + unat ?N < 2 ^ 64\<close> tes']
      have "mem_size m \<le> mem_size m1" by simp
      with that(1) inv1 have il: "i < length ?B"
        by (simp add: stream_inv_def word_le_nat_alt)
      from overwrite_restore [OF len bound that(2) il] have "?b2 ! i = ?B ! i" .
      also from that(1) have "?B ! i = take (unat (mem_size m)) ?B ! i" by simp
      also from keep that(1) have "\<dots> = mem_buf m ! i" by simp
      finally show ?thesis .
    qed
    then have idx: "\<forall>i < unat (mem_size m).
        i < ?p \<or> ?p + unat n \<le> i \<longrightarrow> ?b2 ! i = mem_buf m ! i"
      by blast
    let ?m' = "m1\<lparr>mem_buf := ?b2, mem_size := mem_size m\<rparr>"
    have "mem_buf ?m' = ?b2" and "mem_size ?m' = mem_size m" and "mem_pos ?m' = mem_pos m"
      and "mem_ungetch ?m' = mem_ungetch m" and "mem_eof ?m' = mem_eof m"
      and "mem_error ?m' = mem_error m"
      using flags by simp_all
    with res idx show ?thesis
      by metis
  qed
qed

theorem mio_vprintf_mismatch_witness:
  "stream_inv (mio_new_memory [97, 98, 99, 100, 101, 102] 6 None False)
   \<and> snd (vsnprintf_short 1) = 3
   \<and> vsnprintf_short (unat (3 + 1 :: gint)) = ([88, 89, 0], 2)
   \<and> (\<exists>m'. mio_vprintf (mio_new_memory [97, 98, 99, 100, 101, 102] 6 None False) vsnprintf_short
           = Some (- 1, m')
         \<and> mem_size m' = 6 \<and> mem_pos m' = 0
         \<and> mem_buf m' ! 3 = 100 \<and> mem_buf m' ! 4 = 101 \<and> mem_buf m' ! 5 = 102)"
  using mio_vprintf_mismatch
      [of "mio_new_memory [97, 98, 99, 100, 101, 102] 6 None False" vsnprintf_short 3
          "[88, 89, 0]" 2]
  by (simp add: mio_defs vsnprintf_short_def stream_inv_def)

subsection \<open>Line read\<close>

text \<open>
  C8. With a push-back byte pending, \<open>mio_gets\<close> on a buffer of size 1 stores the byte
  at \<open>s[0]\<close>, one byte more than the \<open>size - 1 = 0\<close> it may copy, and the terminator at
  \<open>s[1]\<close>: outside a one-byte array, and past the size given in a two-byte array. And
  a pending push-back byte that is a newline does not end the line: with the stream
  at \<open>ab\<close> after it, a buffer of size 4 receives the newline, \<open>a\<close> and \<open>b\<close>. The same
  call on the stream that holds the newline and \<open>ab\<close>, with no push-back, stops after
  the newline.
\<close>

theorem mio_gets_pushback_overrun:
  "mio_gets ((mio_new_memory [97, 98] 2 None False)\<lparr>mem_ungetch := 97\<rparr>) [7] 1 = None
   \<and> mio_gets ((mio_new_memory [97, 98] 2 None False)\<lparr>mem_ungetch := 97\<rparr>) [7, 7] 1
     = Some (True, [97, 0], (mio_new_memory [97, 98] 2 None False)\<lparr>mem_pos := 1\<rparr>)
   \<and> mio_gets ((mio_new_memory [10, 97, 98] 3 None False)\<lparr>mem_ungetch := 10\<rparr>) [7, 7, 7, 7] 4
     = Some (True, [10, 97, 98, 0],
             (mio_new_memory [10, 97, 98] 3 None False)\<lparr>mem_pos := 3, mem_eof := True\<rparr>)
   \<and> mio_gets (mio_new_memory [10, 97, 98] 3 None False) [7, 7, 7, 7] 4
     = Some (True, [10, 0, 7, 7], (mio_new_memory [10, 97, 98] 3 None False)\<lparr>mem_pos := 1\<rparr>)"
  by (simp add: mio_defs gets_loop.simps word_le_nat_alt word_less_nat_alt)

end
